theory Spec2Isabelle
  imports Main
begin

section \<open>Values and operations\<close>

text \<open>
  Arguments and results are arbitrary JavaScript values. The model keeps the JSON-like
  part of them: primitives, arrays and objects (a list of key/value pairs). Numbers are
  integers here. A thenable (a Promise, or any object with a \<open>then\<close> method) is a value
  too, since \<open>RESOLVE(data: any)\<close> takes one; it is represented by how it settles: it
  fulfils with a value, rejects with a reason, or stays pending for ever.
\<close>

datatype jsval =
    JUndefined
  | JNull
  | JBool bool
  | JNum int
  | JStr string
  | JArr "jsval list"
  | JObj "(string \<times> jsval) list"
  | JFulfilled jsval
  | JRejected jsval
  | JPending

text \<open>
  The field \<open>parameters\<close> of \<open>Data\<close> is typed \<open>any\<close>, and the source stores exactly
  two shapes in it: the bare string handed to a constructor (\<open>CraftData(TABLE, tableName, true)\<close>)
  and the array of the rest arguments of a fluent method (\<open>CraftData(X, input, true)\<close>).
\<close>

datatype params = PStr string | PArr "jsval list"

text \<open>\<open>p.length\<close>: the length of the string, or of the array.\<close>

fun params_length :: "params \<Rightarrow> nat" where
  "params_length (PStr s) = length s"
| "params_length (PArr xs) = length xs"

text \<open>
  Modelled from the spec: \<open>_.isEqual\<close> comes from the library lodash, which is not part of
  the repository. The spec asks for a deep comparison that handles nested arrays and
  key/value mappings recursively and order-sensitively; on the values of the model that is
  structural equality. A string never equals an array. The proofs below use of it only
  that a value equals itself, that two strings are equal when they are the same string,
  and that a string differs from an array.
\<close>

definition isEqual :: "params \<Rightarrow> params \<Rightarrow> bool" where
  "isEqual a b = (a = b)"

text \<open>
  \<open>class Data { action: string; parameters: any; isMore: boolean; result?: any }\<close>.
  The optional property \<open>result\<close> is \<open>None\<close> while it has not been assigned.
\<close>

record Data =
  action :: string
  parameters :: params
  isMore :: bool
  result :: "jsval option"

definition CraftData :: "string \<Rightarrow> params \<Rightarrow> bool \<Rightarrow> Data" where
  "CraftData a p m = \<lparr>action = a, parameters = p, isMore = m, result = None\<rparr>"

text \<open>
  The operation names that the theorems below mention, out of the 149 constants; each
  constant is the lower-case name of its method.
\<close>

definition TABLE :: string where "TABLE = ''table''"
definition SELECT :: string where "SELECT = ''select''"
definition WHERE :: string where "WHERE = ''where''"
definition RAW :: string where "RAW = ''raw''"

record Config =
  printData :: bool

datatype error = TypeError

section \<open>MockKnex, and MockQuery for building expectations\<close>

text \<open>
  \<open>dataArrayArray\<close> is the store: one array per call of the factory that \<open>EXPECT\<close> returns,
  in the order of the calls. The array is pushed when the factory is called, so the store
  holds chains that are still being built.
\<close>

record MockKnex =
  config :: "Config option"
  dataArrayArray :: "Data list list"

definition MockKnex_new :: "Config option \<Rightarrow> MockKnex" where
  "MockKnex_new c = \<lparr>config = c, dataArrayArray = []\<rparr>"

text \<open>
  A \<open>MockQuery\<close> holds a reference to its array, which is also an element of
  \<open>dataArrayArray\<close>. The reference is the position of the array in the store; every method
  of the builder takes the \<open>MockKnex\<close> that owns the array and returns it updated.
  Arrays are never removed from the store, so the position of a builder that the factory
  made stays in range.
\<close>

record MockQuery =
  dataArray :: nat

text \<open>\<open>if (tableName)\<close>: an absent argument and the empty string are both falsy.\<close>

fun truthy :: "string option \<Rightarrow> bool" where
  "truthy None = False"
| "truthy (Some s) = (s \<noteq> [])"

definition array_push :: "nat \<Rightarrow> Data \<Rightarrow> MockKnex \<Rightarrow> MockKnex" where
  "array_push r d db =
     db\<lparr>dataArrayArray := (dataArrayArray db)[r := (dataArrayArray db ! r) @ [d]]\<rparr>"

text \<open>The constructor of \<open>MockQuery\<close>, with the reference to the array it is given.\<close>

definition MockQuery_new :: "nat \<Rightarrow> string option \<Rightarrow> MockKnex \<Rightarrow> MockQuery \<times> MockKnex" where
  "MockQuery_new passedDataArray tableName db =
     (if truthy tableName
      then (\<lparr>dataArray = passedDataArray\<rparr>,
            array_push passedDataArray (CraftData TABLE (PStr (the tableName)) True) db)
      else (\<lparr>dataArray = passedDataArray\<rparr>, db))"

text \<open>
  The function \<open>mQFunc\<close> that \<open>EXPECT()\<close> returns, and its property \<open>raw\<close>. The raw
  text is a string here; the source puts the prefix \<open>raw:\<close> before it and hands the
  result to the constructor as a table name.
\<close>

definition EXPECT_mQFunc :: "string option \<Rightarrow> MockKnex \<Rightarrow> MockQuery \<times> MockKnex" where
  "EXPECT_mQFunc tableName db =
     MockQuery_new (length (dataArrayArray db)) tableName
       (db\<lparr>dataArrayArray := dataArrayArray db @ [[]]\<rparr>)"

definition EXPECT_raw :: "string \<Rightarrow> MockKnex \<Rightarrow> MockQuery \<times> MockKnex" where
  "EXPECT_raw input db =
     MockQuery_new (length (dataArrayArray db)) (Some (''raw:'' @ input))
       (db\<lparr>dataArrayArray := dataArrayArray db @ [[]]\<rparr>)"

text \<open>
  Every one of the 149 fluent methods of \<open>MockQuery\<close> has the same body with its own
  constant \<open>X\<close> and the array \<open>input\<close> of its rest arguments:
  \<open>let dataToAdd = CraftData(X, input, true); this.dataArray.push(dataToAdd); return this\<close>.
\<close>

definition MockQuery_push :: "string \<Rightarrow> jsval list \<Rightarrow> MockQuery \<Rightarrow> MockKnex \<Rightarrow> MockQuery \<times> MockKnex" where
  "MockQuery_push X input this db =
     (this, array_push (dataArray this) (CraftData X (PArr input) True) db)"

definition MockQuery_table :: "jsval list \<Rightarrow> MockQuery \<Rightarrow> MockKnex \<Rightarrow> MockQuery \<times> MockKnex" where
  "MockQuery_table = MockQuery_push TABLE"

definition MockQuery_select :: "jsval list \<Rightarrow> MockQuery \<Rightarrow> MockKnex \<Rightarrow> MockQuery \<times> MockKnex" where
  "MockQuery_select = MockQuery_push SELECT"

definition MockQuery_where :: "jsval list \<Rightarrow> MockQuery \<Rightarrow> MockKnex \<Rightarrow> MockQuery \<times> MockKnex" where
  "MockQuery_where = MockQuery_push WHERE"

definition MockQuery_raw :: "jsval list \<Rightarrow> MockQuery \<Rightarrow> MockKnex \<Rightarrow> MockQuery \<times> MockKnex" where
  "MockQuery_raw = MockQuery_push RAW"

text \<open>
  \<open>RESOLVE\<close> assigns two properties of the element at index \<open>length - 1\<close>. On an empty
  array that element is \<open>undefined\<close>, and the first assignment throws a TypeError before
  anything is written.
\<close>

definition RESOLVE :: "jsval \<Rightarrow> MockQuery \<Rightarrow> MockKnex \<Rightarrow> error + MockKnex" where
  "RESOLVE data this db =
     (let arr = dataArrayArray db ! dataArray this in
      if arr = [] then Inl TypeError
      else
        let arr1 = arr[length arr - 1 := (arr ! (length arr - 1))\<lparr>isMore := False\<rparr>];
            arr2 = arr1[length arr1 - 1 := (arr1 ! (length arr1 - 1))\<lparr>result := Some data\<rparr>]
        in Inr (db\<lparr>dataArrayArray := (dataArrayArray db)[dataArray this := arr2]\<rparr>))"

section \<open>MockResolve for code execution\<close>

text \<open>
  A \<open>MockResolve\<close> owns \<open>currentStack\<close>; its field \<open>resolveQue\<close> is a reference to the
  \<open>dataArrayArray\<close> of the \<open>MockKnex\<close> that made it. The methods that read \<open>resolveQue\<close>
  work on a pair: the contents of that array when the method runs, and the object.
  The field \<open>config\<close> of the source is \<open>config_of\<close> here; it only switches the printing of
  the operations and comparisons, which the model leaves out.
\<close>

record MockResolve =
  currentStack :: "Data list"
  config_of :: "Config option"

type_synonym resolve_state = "Data list list \<times> MockResolve"

definition MockResolve_new :: "Config option \<Rightarrow> string option \<Rightarrow> MockResolve" where
  "MockResolve_new c tableName =
     (if truthy tableName
      then \<lparr>currentStack = [CraftData TABLE (PStr (the tableName)) True], config_of = c\<rparr>
      else \<lparr>currentStack = [], config_of = c\<rparr>)"

text \<open>The function \<open>mRFunc\<close> that \<open>MockDB()\<close> returns, and its property \<open>raw\<close>.\<close>

definition MockDB_mRFunc :: "string option \<Rightarrow> MockKnex \<Rightarrow> MockResolve" where
  "MockDB_mRFunc tableName db = MockResolve_new (config db) tableName"

definition MockDB_raw :: "string \<Rightarrow> MockKnex \<Rightarrow> MockResolve" where
  "MockDB_raw input db = MockResolve_new (config db) (Some (''raw:'' @ input))"

text \<open>
  The common body of the 149 fluent methods of \<open>MockResolve\<close>, each with the constant of
  the method of the same name in \<open>MockQuery\<close>:
  \<open>let dataToAdd = CraftData(X, input, true); this.currentStack.push(dataToAdd); return this\<close>.
\<close>

definition MockResolve_push :: "string \<Rightarrow> jsval list \<Rightarrow> MockResolve \<Rightarrow> MockResolve" where
  "MockResolve_push X input this =
     this\<lparr>currentStack := currentStack this @ [CraftData X (PArr input) True]\<rparr>"

definition MockResolve_table :: "jsval list \<Rightarrow> MockResolve \<Rightarrow> MockResolve" where
  "MockResolve_table = MockResolve_push TABLE"

definition MockResolve_select :: "jsval list \<Rightarrow> MockResolve \<Rightarrow> MockResolve" where
  "MockResolve_select = MockResolve_push SELECT"

definition MockResolve_where :: "jsval list \<Rightarrow> MockResolve \<Rightarrow> MockResolve" where
  "MockResolve_where = MockResolve_push WHERE"

definition MockResolve_raw :: "jsval list \<Rightarrow> MockResolve \<Rightarrow> MockResolve" where
  "MockResolve_raw = MockResolve_push RAW"

text \<open>
  The inner loop of \<open>findResult\<close>, from \<open>innerIndex\<close> on; its value is the variable
  \<open>match\<close> when the loop ends. It runs only after the two lengths were found equal, so
  \<open>stack ! innerIndex\<close> is always in range.
\<close>

function check_links :: "Data list \<Rightarrow> Data list \<Rightarrow> nat \<Rightarrow> bool" where
  "check_links resolution stack innerIndex =
     (if innerIndex < length resolution then
        (if action (resolution ! innerIndex) \<noteq> action (stack ! innerIndex) then False
         else if params_length (parameters (resolution ! innerIndex)) = 0
           then check_links resolution stack (Suc innerIndex)
         else if \<not> isEqual (parameters (resolution ! innerIndex)) (parameters (stack ! innerIndex))
           then False
         else check_links resolution stack (Suc innerIndex))
      else True)"
  by pat_completeness auto
termination
  by (relation "measure (\<lambda>(r, s, i). length r - i)") auto

declare check_links.simps [simp del]

text \<open>The outer loop of \<open>findResult\<close> over the chains of \<open>resolveQue\<close>, in index order.\<close>

fun findResult_loop :: "Data list list \<Rightarrow> Data list \<Rightarrow> Data option" where
  "findResult_loop [] stack = None"
| "findResult_loop (resolution # rest) stack =
     (if length resolution \<noteq> length stack then findResult_loop rest stack
      else if \<not> check_links resolution stack 0 then findResult_loop rest stack
      else if length resolution > 0 \<and> isMore (resolution ! (length resolution - 1)) = False
        then Some (resolution ! (length resolution - 1))
      else findResult_loop rest stack)"

text \<open>
  The host's \<open>Promise.resolve(v).then(resolve, reject)\<close>: a value that is not a thenable
  is handed to \<open>resolve\<close>; a thenable is adopted, so \<open>resolve\<close> gets the value it fulfils
  with (itself adopted when it is a thenable again), \<open>reject\<close> gets the reason it rejects
  with, and neither is called while it stays pending. An \<open>await\<close> of the object then yields
  the fulfilment value, throws the reason, or never continues.
\<close>

datatype outcome = Fulfils jsval | Rejects jsval | Never

fun thenable :: "jsval \<Rightarrow> bool" where
  "thenable (JFulfilled v) = True"
| "thenable (JRejected e) = True"
| "thenable JPending = True"
| "thenable v = False"

fun Promise_resolve :: "jsval \<Rightarrow> outcome" where
  "Promise_resolve (JFulfilled v) = Promise_resolve v"
| "Promise_resolve (JRejected e) = Rejects e"
| "Promise_resolve JPending = Never"
| "Promise_resolve v = Fulfils v"

text \<open>
  The methods \<open>findResult\<close>, \<open>valueOf\<close> and \<open>then\<close> return their value and the state they
  leave. \<open>valueOf\<close> returns \<open>res.result\<close> as it is, a thenable included. \<open>then_awaited\<close> is
  how the promise \<open>Promise.resolve(finalRes).then(resolve, reject)\<close> that \<open>then\<close> returns
  settles, which is what an \<open>await\<close> of the object yields.
\<close>

definition findResult :: "resolve_state \<Rightarrow> Data option \<times> resolve_state" where
  "findResult st = (findResult_loop (fst st) (currentStack (snd st)), st)"

text \<open>Reading \<open>res.result\<close>: an unassigned property reads as \<open>undefined\<close>.\<close>

definition result_of :: "Data \<Rightarrow> jsval" where
  "result_of res = (case result res of None \<Rightarrow> JUndefined | Some v \<Rightarrow> v)"

definition valueOf :: "resolve_state \<Rightarrow> jsval \<times> resolve_state" where
  "valueOf st =
     (case findResult st of
        (Some res, st') \<Rightarrow> (result_of res, st')
      | (None, st') \<Rightarrow> (JArr [], st'))"

definition then_awaited :: "resolve_state \<Rightarrow> outcome \<times> resolve_state" where
  "then_awaited st =
     (case findResult st of
        (Some res, st') \<Rightarrow> (Promise_resolve (result_of res), st')
      | (None, st') \<Rightarrow> (Promise_resolve (JArr []), st'))"

section \<open>Running the accessors and the recorder\<close>

text \<open>
  A sequence of accesses to one \<open>MockResolve\<close>: each is \<open>valueOf\<close>, which returns a value,
  or an \<open>await\<close>, which observes how \<open>then\<close> settles.
\<close>

datatype accessor = ValueOf | Then

datatype observation = Returned jsval | Settled outcome

fun access :: "accessor \<Rightarrow> resolve_state \<Rightarrow> observation \<times> resolve_state" where
  "access ValueOf st = (case valueOf st of (v, st') \<Rightarrow> (Returned v, st'))"
| "access Then st = (case then_awaited st of (out, st') \<Rightarrow> (Settled out, st'))"

fun access_all :: "accessor list \<Rightarrow> resolve_state \<Rightarrow> observation list \<times> resolve_state" where
  "access_all [] st = ([], st)"
| "access_all (a # as) st =
     (case access a st of (v, st') \<Rightarrow>
        (case access_all as st' of (vs, st'') \<Rightarrow> (v # vs, st'')))"

text \<open>
  A sequence of fluent calls, each given by its constant and its arguments, made on a
  builder and on a proxy.
\<close>

fun MockQuery_calls :: "(string \<times> jsval list) list \<Rightarrow> MockQuery \<Rightarrow> MockKnex \<Rightarrow> MockQuery \<times> MockKnex" where
  "MockQuery_calls [] this db = (this, db)"
| "MockQuery_calls ((X, input) # ops) this db =
     (case MockQuery_push X input this db of (this', db') \<Rightarrow> MockQuery_calls ops this' db')"

fun MockResolve_calls :: "(string \<times> jsval list) list \<Rightarrow> MockResolve \<Rightarrow> MockResolve" where
  "MockResolve_calls [] this = this"
| "MockResolve_calls ((X, input) # ops) this = MockResolve_calls ops (MockResolve_push X input this)"

text \<open>
  What a test can do to a \<open>MockKnex\<close>: call the factory, call its \<open>raw\<close>, make a fluent
  call on a builder, call \<open>RESOLVE\<close> on a builder. A \<open>RESOLVE\<close> that throws has written
  nothing.
\<close>

datatype command =
    Expect "string option"
  | ExpectRaw string
  | Fluent nat string "jsval list"
  | Resolve nat jsval

fun exec :: "command \<Rightarrow> MockKnex \<Rightarrow> MockKnex" where
  "exec (Expect tableName) db = snd (EXPECT_mQFunc tableName db)"
| "exec (ExpectRaw input) db = snd (EXPECT_raw input db)"
| "exec (Fluent r X input) db = snd (MockQuery_push X input \<lparr>dataArray = r\<rparr> db)"
| "exec (Resolve r data) db =
     (case RESOLVE data \<lparr>dataArray = r\<rparr> db of Inl e \<Rightarrow> db | Inr db' \<Rightarrow> db')"

fun exec_all :: "command list \<Rightarrow> MockKnex \<Rightarrow> MockKnex" where
  "exec_all [] db = db"
| "exec_all (c # cs) db = exec_all cs (exec c db)"

text \<open>
  A whole expectation as a test writes it, \<open>DB.EXPECT()(tableName).op(...)...RESOLVE(data)\<close>
  and \<open>DB.EXPECT().raw(input).op(...)...RESOLVE(data)\<close>: the factory call, the fluent
  calls in order, then \<open>RESOLVE\<close>.
\<close>

definition expect_chain :: "string option \<Rightarrow> (string \<times> jsval list) list \<Rightarrow> jsval \<Rightarrow> MockKnex \<Rightarrow> error + MockKnex" where
  "expect_chain tableName ops data db =
     (case EXPECT_mQFunc tableName db of (q, db1) \<Rightarrow>
        (case MockQuery_calls ops q db1 of (q', db2) \<Rightarrow> RESOLVE data q' db2))"

definition expect_raw_chain :: "string \<Rightarrow> (string \<times> jsval list) list \<Rightarrow> jsval \<Rightarrow> MockKnex \<Rightarrow> error + MockKnex" where
  "expect_raw_chain input ops data db =
     (case EXPECT_raw input db of (q, db1) \<Rightarrow>
        (case MockQuery_calls ops q db1 of (q', db2) \<Rightarrow> RESOLVE data q' db2))"

text \<open>
  Shorthands for the statements below: the operation a fluent call pushes, and an array
  after \<open>RESOLVE\<close> has assigned the two properties of its last element.
\<close>

abbreviation pushed :: "string \<times> jsval list \<Rightarrow> Data" where
  "pushed \<equiv> \<lambda>(X, input). CraftData X (PArr input) True"

abbreviation resolved :: "jsval \<Rightarrow> Data list \<Rightarrow> Data list" where
  "resolved data arr \<equiv> butlast arr @ [(last arr)\<lparr>isMore := False, result := Some data\<rparr>]"

section \<open>The matching conditions in the words of the specification\<close>

text \<open>
  (a) equal operation count, (b) equal names at every position, (c) at every position the
  candidate's parameters are empty or deep-equal the invocation's.
\<close>

definition params_empty :: "params \<Rightarrow> bool" where
  "params_empty p = (params_length p = 0)"

definition structural_match :: "Data list \<Rightarrow> Data list \<Rightarrow> bool" where
  "structural_match c s =
     (length c = length s
      \<and> (\<forall>i \<in> {0..<length c}. action (c ! i) = action (s ! i))
      \<and> (\<forall>i \<in> {0..<length c}.
            params_empty (parameters (c ! i)) \<or> isEqual (parameters (c ! i)) (parameters (s ! i))))"

text \<open>(d) the candidate is sealed: it has a last operation, whose \<open>isMore\<close> is false.\<close>

definition sealed :: "Data list \<Rightarrow> bool" where
  "sealed c = (c \<noteq> [] \<and> isMore (last c) = False)"

definition chain_matches :: "Data list \<Rightarrow> Data list \<Rightarrow> bool" where
  "chain_matches c s = (structural_match c s \<and> sealed c)"

text \<open>
  The invariant of a store that the recorder has built: \<open>isMore\<close> is false only where a
  result has been assigned.
\<close>

definition registered_ok :: "Data list list \<Rightarrow> bool" where
  "registered_ok store = (\<forall>c \<in> set store. \<forall>d \<in> set c. isMore d = False \<longrightarrow> result d \<noteq> None)"

section \<open>Example states\<close>

text \<open>
  The expectation of the README, registered three times: left unsealed, sealed with a
  wildcard \<open>select()\<close>, and sealed with the exact arguments; and the invocation of the
  README on a proxy of the same \<open>MockKnex\<close>.
\<close>

definition readme_select :: "jsval list" where
  "readme_select = [JArr [JStr ''objectName'', JStr ''id'']]"

definition readme_where :: "jsval list" where
  "readme_where = [JStr ''field'', JStr ''data'']"

definition demo_db :: MockKnex where
  "demo_db = exec_all
     [Expect (Some ''myTable''), Fluent 0 SELECT readme_select, Fluent 0 WHERE readme_where,
      Expect (Some ''myTable''), Fluent 1 SELECT [], Fluent 1 WHERE readme_where,
      Resolve 1 (JStr ''wildcard''),
      Expect (Some ''myTable''), Fluent 2 SELECT readme_select, Fluent 2 WHERE readme_where,
      Resolve 2 (JStr ''exact'')]
     (MockKnex_new None)"

definition demo_proxy :: MockResolve where
  "demo_proxy = MockResolve_where readme_where
     (MockResolve_select readme_select (MockDB_mRFunc (Some ''myTable'') demo_db))"

definition bare_proxy :: MockResolve where
  "bare_proxy = MockResolve_where readme_where
     (MockResolve_select [] (MockDB_mRFunc (Some ''myTable'') demo_db))"

text \<open>
  Two stores with a single sealed chain: a seed whose string is \<open>raw:x\<close>, and a
  wildcard \<open>table()\<close>.
\<close>

definition raw_x_db :: MockKnex where
  "raw_x_db = \<lparr>config = None, dataArrayArray =
     [[\<lparr>action = TABLE, parameters = PStr ''raw:x'', isMore = False, result = Some (JNum 1)\<rparr>]]\<rparr>"

definition any_table_db :: MockKnex where
  "any_table_db = \<lparr>config = None, dataArrayArray =
     [[\<lparr>action = TABLE, parameters = PArr [], isMore = False, result = Some (JNum 1)\<rparr>]]\<rparr>"

text \<open>
  Two stores with a single chain sealed with a Promise as its result: one that fulfils
  with 1, and one that rejects.
\<close>

definition fulfilled_db :: MockKnex where
  "fulfilled_db = \<lparr>config = None, dataArrayArray =
     [[\<lparr>action = TABLE, parameters = PStr ''t'', isMore = False,
        result = Some (JFulfilled (JNum 1))\<rparr>]]\<rparr>"

definition rejected_db :: MockKnex where
  "rejected_db = \<lparr>config = None, dataArrayArray =
     [[\<lparr>action = TABLE, parameters = PStr ''t'', isMore = False,
        result = Some (JRejected (JStr ''boom''))\<rparr>]]\<rparr>"

definition other_proxy :: MockResolve where
  "other_proxy = MockResolve_select [JStr ''x''] (MockDB_mRFunc (Some ''other'') demo_db)"

section \<open>The matcher computes the first match\<close>

lemma check_links_iff:
  "check_links r s i =
     (\<forall>j \<in> {i..<length r}. action (r ! j) = action (s ! j)
        \<and> (params_empty (parameters (r ! j)) \<or> isEqual (parameters (r ! j)) (parameters (s ! j))))"
proof (induction r s i rule: check_links.induct)
  case (1 r s i)
  show ?case
  proof (cases "i < length r")
    case False
    then show ?thesis by (simp add: check_links.simps)
  next
    case True
    then have split: "{i..<length r} = insert i {Suc i..<length r}" by auto
    show ?thesis
    proof (cases "action (r ! i) \<noteq> action (s ! i)")
      case True
      with \<open>i < length r\<close> show ?thesis
        by (subst check_links.simps) (auto simp: split)
    next
      case same: False
      show ?thesis
      proof (cases "params_length (parameters (r ! i)) = 0")
        case True
        with same \<open>i < length r\<close> "1.IH"(1) show ?thesis
          by (subst check_links.simps) (simp add: split params_empty_def)
      next
        case nz: False
        show ?thesis
        proof (cases "isEqual (parameters (r ! i)) (parameters (s ! i))")
          case True
          with same nz \<open>i < length r\<close> "1.IH"(2) show ?thesis
            by (subst check_links.simps) (simp add: split params_empty_def)
        next
          case False
          with same nz \<open>i < length r\<close> show ?thesis
            by (subst check_links.simps) (simp add: split params_empty_def)
        qed
      qed
    qed
  qed
qed

lemma structural_match_code:
  "structural_match c s = (length c = length s \<and> check_links c s 0)"
  by (auto simp: structural_match_def check_links_iff)

lemma findResult_loop_Cons:
  "findResult_loop (c # rest) stack =
     (if chain_matches c stack then Some (last c) else findResult_loop rest stack)"
proof (cases "c = []")
  case True
  then show ?thesis by (simp add: chain_matches_def sealed_def)
next
  case False
  then have nth: "c ! (length c - 1) = last c" and pos: "length c > 0"
    by (simp_all add: last_conv_nth)
  have "findResult_loop (c # rest) stack =
     (if length c \<noteq> length stack then findResult_loop rest stack
      else if \<not> check_links c stack 0 then findResult_loop rest stack
      else if isMore (last c) = False then Some (last c)
      else findResult_loop rest stack)"
    by (simp only: findResult_loop.simps nth pos simp_thms)
  then show ?thesis
    using False by (simp add: chain_matches_def sealed_def structural_match_code)
qed

lemma findResult_loop_find:
  "findResult_loop store stack =
     (case find (\<lambda>c. chain_matches c stack) store of None \<Rightarrow> None | Some c \<Rightarrow> Some (last c))"
  by (induction store) (simp_all add: findResult_loop_Cons del: findResult_loop.simps(2))

lemma structural_match_list_all2:
  "structural_match c s =
     list_all2 (\<lambda>a b. action a = action b
        \<and> (params_empty (parameters a) \<or> isEqual (parameters a) (parameters b))) c s"
  by (auto simp: structural_match_def list_all2_conv_all_nth)

lemmas api_defs =
  EXPECT_mQFunc_def EXPECT_raw_def MockQuery_new_def MockQuery_push_def
  array_push_def RESOLVE_def MockKnex_new_def CraftData_def Let_def
  MockDB_mRFunc_def MockDB_raw_def MockResolve_new_def MockResolve_push_def
  MockResolve_table_def MockResolve_select_def MockResolve_where_def MockResolve_raw_def
  MockQuery_table_def MockQuery_select_def MockQuery_where_def MockQuery_raw_def

lemmas match_defs =
  findResult_def valueOf_def then_awaited_def result_of_def findResult_loop_Cons
  chain_matches_def sealed_def structural_match_list_all2 params_empty_def isEqual_def

lemma demo_store:
  "dataArrayArray demo_db =
   [[\<lparr>action = TABLE, parameters = PStr ''myTable'', isMore = True, result = None\<rparr>,
     \<lparr>action = SELECT, parameters = PArr readme_select, isMore = True, result = None\<rparr>,
     \<lparr>action = WHERE, parameters = PArr readme_where, isMore = True, result = None\<rparr>],
    [\<lparr>action = TABLE, parameters = PStr ''myTable'', isMore = True, result = None\<rparr>,
     \<lparr>action = SELECT, parameters = PArr [], isMore = True, result = None\<rparr>,
     \<lparr>action = WHERE, parameters = PArr readme_where, isMore = False,
        result = Some (JStr ''wildcard'')\<rparr>],
    [\<lparr>action = TABLE, parameters = PStr ''myTable'', isMore = True, result = None\<rparr>,
     \<lparr>action = SELECT, parameters = PArr readme_select, isMore = True, result = None\<rparr>,
     \<lparr>action = WHERE, parameters = PArr readme_where, isMore = False,
        result = Some (JStr ''exact'')\<rparr>]]"
  by (simp add: demo_db_def api_defs)

lemma demo_stack:
  "currentStack demo_proxy =
    [\<lparr>action = TABLE, parameters = PStr ''myTable'', isMore = True, result = None\<rparr>,
     \<lparr>action = SELECT, parameters = PArr readme_select, isMore = True, result = None\<rparr>,
     \<lparr>action = WHERE, parameters = PArr readme_where, isMore = True, result = None\<rparr>]"
  by (simp add: demo_proxy_def api_defs)

lemma other_stack:
  "currentStack other_proxy =
    [\<lparr>action = TABLE, parameters = PStr ''other'', isMore = True, result = None\<rparr>,
     \<lparr>action = SELECT, parameters = PArr [JStr ''x''], isMore = True, result = None\<rparr>]"
  by (simp add: other_proxy_def api_defs)

lemma valueOf_find:
  "valueOf (store, this) =
     ((case find (\<lambda>c. chain_matches c (currentStack this)) store of
         None \<Rightarrow> JArr [] | Some c \<Rightarrow> result_of (last c)), (store, this))"
  by (simp add: valueOf_def findResult_def findResult_loop_find split: option.splits)

lemma snd_valueOf: "snd (valueOf st) = st"
  by (simp add: valueOf_def findResult_def split: option.splits)

lemma then_awaited_adopts: "then_awaited st = (Promise_resolve (fst (valueOf st)), st)"
  by (simp add: then_awaited_def valueOf_def findResult_def split: option.splits)

lemma Promise_resolve_plain: "\<not> thenable v \<Longrightarrow> Promise_resolve v = Fulfils v"
  by (cases v) simp_all

lemma registered_sealed_result:
  "registered_ok store \<Longrightarrow> c \<in> set store \<Longrightarrow> sealed c \<Longrightarrow> result (last c) \<noteq> None"
  by (auto simp: registered_ok_def sealed_def)

lemma snd_access: "snd (access a st) = st"
  by (cases a) (simp_all add: then_awaited_adopts snd_valueOf case_prod_beta)

lemma snd_access_all: "snd (access_all as st) = st"
  by (induction as arbitrary: st) (simp_all add: case_prod_beta snd_access)

section \<open>The recorder\<close>

lemma update_last:
  "xs \<noteq> [] \<Longrightarrow> xs[length xs - 1 := f (xs ! (length xs - 1))] = butlast xs @ [f (last xs)]"
  by (induction xs rule: rev_induct) simp_all

lemma RESOLVE_empty:
  "dataArrayArray db ! dataArray this = [] \<Longrightarrow> RESOLVE data this db = Inl TypeError"
  by (simp add: RESOLVE_def)

lemma RESOLVE_nonempty:
  assumes "dataArrayArray db ! dataArray this \<noteq> []"
  shows "RESOLVE data this db =
     Inr (db\<lparr>dataArrayArray := (dataArrayArray db)[dataArray this :=
            resolved data (dataArrayArray db ! dataArray this)]\<rparr>)"
proof -
  define arr where "arr = dataArrayArray db ! dataArray this"
  define arr1 where "arr1 = arr[length arr - 1 := (arr ! (length arr - 1))\<lparr>isMore := False\<rparr>]"
  define arr2 where "arr2 = arr1[length arr1 - 1 := (arr1 ! (length arr1 - 1))\<lparr>result := Some data\<rparr>]"
  have ne: "arr \<noteq> []" using assms by (simp add: arr_def)
  have one: "arr1 = butlast arr @ [(last arr)\<lparr>isMore := False\<rparr>]"
    unfolding arr1_def by (rule update_last [OF ne, where f = "\<lambda>d. d\<lparr>isMore := False\<rparr>"])
  then have ne1: "arr1 \<noteq> []" by simp
  have "arr2 = butlast arr1 @ [(last arr1)\<lparr>result := Some data\<rparr>]"
    unfolding arr2_def by (rule update_last [OF ne1, where f = "\<lambda>d. d\<lparr>result := Some data\<rparr>"])
  then have two: "arr2 = butlast arr @ [(last arr)\<lparr>isMore := False, result := Some data\<rparr>]"
    by (simp add: one)
  have "RESOLVE data this db = Inr (db\<lparr>dataArrayArray := (dataArrayArray db)[dataArray this := arr2]\<rparr>)"
    using ne by (simp add: RESOLVE_def Let_def arr_def arr1_def arr2_def)
  then show ?thesis
    by (simp only: two arr_def)
qed

lemma EXPECT_mQFunc_eq:
  "EXPECT_mQFunc tableName db =
     (\<lparr>dataArray = length (dataArrayArray db)\<rparr>,
      db\<lparr>dataArrayArray := dataArrayArray db
          @ [if truthy tableName then [CraftData TABLE (PStr (the tableName)) True] else []]\<rparr>)"
  by (simp add: EXPECT_mQFunc_def MockQuery_new_def array_push_def)

lemma EXPECT_raw_eq:
  "EXPECT_raw input db =
     (\<lparr>dataArray = length (dataArrayArray db)\<rparr>,
      db\<lparr>dataArrayArray := dataArrayArray db @ [[CraftData TABLE (PStr (''raw:'' @ input)) True]]\<rparr>)"
  by (simp add: EXPECT_raw_def MockQuery_new_def array_push_def)

lemma MockQuery_calls_eq:
  "dataArray this < length (dataArrayArray db) \<Longrightarrow>
   MockQuery_calls ops this db =
     (this, db\<lparr>dataArrayArray := (dataArrayArray db)[dataArray this :=
        dataArrayArray db ! dataArray this @ map pushed ops]\<rparr>)"
proof (induction ops arbitrary: db)
  case Nil
  then show ?case by simp
next
  case (Cons op ops)
  obtain X input where op: "op = (X, input)" by (cases op)
  let ?db = "array_push (dataArray this) (CraftData X (PArr input) True) db"
  have len: "dataArray this < length (dataArrayArray ?db)"
    using Cons.prems by (simp add: array_push_def)
  show ?case
    using Cons.prems Cons.IH [OF len]
    by (simp add: op MockQuery_push_def array_push_def)
qed

lemma MockResolve_calls_eq:
  "MockResolve_calls ops this =
     this\<lparr>currentStack := currentStack this @ map pushed ops\<rparr>"
proof (induction ops arbitrary: this)
  case Nil
  then show ?case by simp
next
  case (Cons op ops)
  obtain X input where op: "op = (X, input)" by (cases op)
  show ?case by (simp add: op Cons.IH MockResolve_push_def)
qed

lemma resolved_map_action: "arr \<noteq> [] \<Longrightarrow> map action (resolved data arr) = map action arr"
  by (induction arr rule: rev_induct) simp_all

lemma resolved_map_parameters: "arr \<noteq> [] \<Longrightarrow> map parameters (resolved data arr) = map parameters arr"
  by (induction arr rule: rev_induct) simp_all

lemma resolved_sealed: "sealed (resolved data arr) \<and> result (last (resolved data arr)) = Some data"
  by (simp add: sealed_def)

lemma same_operations_match:
  assumes "map action s = map action c" and "map parameters s = map parameters c"
  shows "structural_match c s"
proof -
  have len: "length c = length s"
    using assms(1) by (rule map_eq_imp_length_eq [symmetric])
  have "action (c ! i) = action (s ! i) \<and> parameters (c ! i) = parameters (s ! i)"
    if "i < length c" for i
  proof -
    have "map action s ! i = map action c ! i" and "map parameters s ! i = map parameters c ! i"
      using assms by simp_all
    with that len show ?thesis by simp
  qed
  with len show ?thesis
    by (simp add: structural_match_def isEqual_def)
qed

lemma head_mismatch:
  assumes "c \<noteq> []" and "\<not> params_empty (parameters (hd c))"
    and "parameters (hd c) \<noteq> parameters (hd s)"
  shows "\<not> structural_match c s"
proof
  assume m: "structural_match c s"
  from assms(1) have "0 \<in> {0..<length c}" by simp
  with m have "params_empty (parameters (c ! 0)) \<or> isEqual (parameters (c ! 0)) (parameters (s ! 0))"
    and "length c = length s"
    unfolding structural_match_def by blast+
  with assms show False
    by (simp add: hd_conv_nth isEqual_def) (metis hd_conv_nth length_0_conv)
qed

lemma find_first:
  "\<forall>x \<in> set pre. \<not> P x \<Longrightarrow> P x \<Longrightarrow> find P (pre @ x # post) = Some x"
  by (induction pre) simp_all

lemma findResult_single:
  "fst (findResult ([c], this)) = (if chain_matches c (currentStack this) then Some (last c) else None)"
  by (simp add: findResult_def findResult_loop_Cons del: findResult_loop.simps(2))

lemma expect_chain_fresh:
  "expect_chain tableName ops data (MockKnex_new cfg) =
     (if \<not> truthy tableName \<and> ops = [] then Inl TypeError
      else Inr \<lparr>config = cfg, dataArrayArray =
        [resolved data ((if truthy tableName then [CraftData TABLE (PStr (the tableName)) True] else [])
           @ map pushed ops)]\<rparr>)"
proof -
  have calls: "MockQuery_calls ops \<lparr>dataArray = 0\<rparr> \<lparr>config = cfg, dataArrayArray = [a]\<rparr>
      = (\<lparr>dataArray = 0\<rparr>, \<lparr>config = cfg, dataArrayArray = [a @ map pushed ops]\<rparr>)" for a
    by (simp add: MockQuery_calls_eq)
  show ?thesis
  proof (cases "\<not> truthy tableName \<and> ops = []")
    case True
    then show ?thesis
      by (simp add: expect_chain_def EXPECT_mQFunc_eq MockKnex_new_def RESOLVE_empty)
  next
    case False
    then have "(if truthy tableName then [CraftData TABLE (PStr (the tableName)) True] else [])
        @ map pushed ops \<noteq> []"
      by auto
    with False show ?thesis
      by (simp add: expect_chain_def EXPECT_mQFunc_eq MockKnex_new_def calls RESOLVE_nonempty
          del: append_is_Nil_conv)
  qed
qed

lemma expect_raw_chain_fresh:
  "expect_raw_chain input ops data (MockKnex_new cfg) =
     Inr \<lparr>config = cfg, dataArrayArray =
        [resolved data (CraftData TABLE (PStr (''raw:'' @ input)) True # map pushed ops)]\<rparr>"
proof -
  have calls: "MockQuery_calls ops \<lparr>dataArray = 0\<rparr> \<lparr>config = cfg, dataArrayArray = [a]\<rparr>
      = (\<lparr>dataArray = 0\<rparr>, \<lparr>config = cfg, dataArrayArray = [a @ map pushed ops]\<rparr>)" for a
    by (simp add: MockQuery_calls_eq)
  show ?thesis
    by (simp add: expect_raw_chain_def EXPECT_raw_eq MockKnex_new_def calls RESOLVE_nonempty)
qed

lemma bare_stack:
  "currentStack bare_proxy =
    [\<lparr>action = TABLE, parameters = PStr ''myTable'', isMore = True, result = None\<rparr>,
     \<lparr>action = SELECT, parameters = PArr [], isMore = True, result = None\<rparr>,
     \<lparr>action = WHERE, parameters = PArr readme_where, isMore = True, result = None\<rparr>]"
  by (simp add: bare_proxy_def api_defs)

lemma resolved_hd_parameters:
  "arr \<noteq> [] \<Longrightarrow> parameters (hd (resolved data arr)) = parameters (hd arr)"
  by (cases arr) (auto simp: hd_append)

lemma valueOf_single:
  "fst (valueOf ([c], this)) =
     (if chain_matches c (currentStack this) then result_of (last c) else JArr [])"
  by (simp add: valueOf_find)

lemma fresh_match:
  assumes "arr \<noteq> []" and "currentStack this = arr"
  shows "fst (valueOf ([resolved R arr], this)) = R"
proof -
  have "structural_match (resolved R arr) arr"
    by (intro same_operations_match)
      (simp_all only: resolved_map_action [OF assms(1)] resolved_map_parameters [OF assms(1)])
  then have "chain_matches (resolved R arr) (currentStack this)"
    using assms(2) resolved_sealed [where arr = arr and data = R] by (simp add: chain_matches_def)
  then show ?thesis
    by (simp add: valueOf_single result_of_def)
qed

lemma fresh_mismatch:
  assumes "arr \<noteq> []" and "\<not> params_empty (parameters (hd arr))"
    and "parameters (hd arr) \<noteq> parameters (hd (currentStack this))"
  shows "fst (findResult ([resolved R arr], this)) = None"
proof -
  have "\<not> structural_match (resolved R arr) (currentStack this)"
    using assms by (intro head_mismatch) (simp_all add: resolved_hd_parameters)
  then show ?thesis
    by (simp add: findResult_single chain_matches_def)
qed

text \<open>Every store that the recorder can build satisfies the invariant.\<close>

lemma registered_ok_update:
  assumes "registered_ok store"
    and "\<forall>d \<in> set a. isMore d = False \<longrightarrow> result d \<noteq> None"
  shows "registered_ok (store[r := a])"
  using assms set_update_subset_insert [of store r a]
  unfolding registered_ok_def by blast

lemma registered_ok_push:
  "registered_ok (dataArrayArray db) \<Longrightarrow>
   registered_ok (dataArrayArray (array_push r (CraftData X p True) db))"
proof (cases "r < length (dataArrayArray db)")
  case True
  assume ok: "registered_ok (dataArrayArray db)"
  from True have "dataArrayArray db ! r \<in> set (dataArrayArray db)" by simp
  with ok have "\<forall>d \<in> set (dataArrayArray db ! r @ [CraftData X p True]).
      isMore d = False \<longrightarrow> result d \<noteq> None"
    by (auto simp: registered_ok_def CraftData_def)
  with ok show ?thesis
    by (simp add: array_push_def registered_ok_update)
next
  case False
  assume "registered_ok (dataArrayArray db)"
  with False show ?thesis
    by (simp add: array_push_def list_update_beyond)
qed

lemma registered_ok_exec:
  assumes "registered_ok (dataArrayArray db)"
  shows "registered_ok (dataArrayArray (exec c db))"
proof (cases c)
  case (Expect tableName)
  with assms show ?thesis
    by (auto simp: EXPECT_mQFunc_eq registered_ok_def CraftData_def)
next
  case (ExpectRaw input)
  with assms show ?thesis
    by (auto simp: EXPECT_raw_eq registered_ok_def CraftData_def)
next
  case (Fluent r X input)
  with assms show ?thesis
    by (simp add: MockQuery_push_def registered_ok_push)
next
  case (Resolve r data)
  show ?thesis
  proof (cases "dataArrayArray db ! r = []")
    case True
    with assms Resolve show ?thesis
      by (simp add: RESOLVE_empty)
  next
    case False
    show ?thesis
    proof (cases "r < length (dataArrayArray db)")
      case True
      then have "dataArrayArray db ! r \<in> set (dataArrayArray db)" by simp
      with assms have "\<forall>d \<in> set (dataArrayArray db ! r). isMore d = False \<longrightarrow> result d \<noteq> None"
        by (auto simp: registered_ok_def)
      then have "\<forall>d \<in> set (resolved data (dataArrayArray db ! r)).
          isMore d = False \<longrightarrow> result d \<noteq> None"
        by (auto dest: in_set_butlastD)
      with assms False Resolve show ?thesis
        by (simp add: RESOLVE_nonempty registered_ok_update)
    next
      case beyond: False
      with assms False Resolve show ?thesis
        by (simp add: RESOLVE_nonempty list_update_beyond)
    qed
  qed
qed

lemma registered_ok_exec_all:
  "registered_ok (dataArrayArray db) \<Longrightarrow> registered_ok (dataArrayArray (exec_all cs db))"
  by (induction cs arbitrary: db) (simp_all add: registered_ok_exec)

lemma registered_ok_reachable:
  "registered_ok (dataArrayArray (exec_all cs (MockKnex_new cfg)))"
  by (rule registered_ok_exec_all) (simp add: MockKnex_new_def registered_ok_def)

section \<open>Claims about the matcher\<close>

text \<open>
  C3. For every invocation chain and every store, \<open>findResult\<close> scans the stored chains
  in insertion order and returns the last operation of the first chain that has (a) the
  invocation's operation count, (b) the invocation's operation name at every position,
  (c) at every position parameters that are empty or deep-equal the invocation's, and that
  (d) is sealed; \<open>valueOf\<close> yields that operation's result. \<open>find\<close> returns the first
  element of the list with the property, so a structurally matching chain that is not
  sealed is passed over and of several sealed matching chains the earliest wins. In a
  store built by the recorder a sealed chain carries a result.
\<close>

theorem findResult_first_match:
  "fst (findResult (store, this)) =
     (case find (\<lambda>c. chain_matches c (currentStack this)) store of
        None \<Rightarrow> None | Some c \<Rightarrow> Some (last c))
   \<and> fst (valueOf (store, this)) =
     (case find (\<lambda>c. chain_matches c (currentStack this)) store of
        None \<Rightarrow> JArr [] | Some c \<Rightarrow> result_of (last c))
   \<and> (registered_ok store \<longrightarrow> (\<forall>c \<in> set store. sealed c \<longrightarrow> result (last c) \<noteq> None))"
  by (simp add: findResult_def findResult_loop_find valueOf_find registered_sealed_result)

theorem findResult_first_match_witness:
  "registered_ok (dataArrayArray demo_db)
   \<and> structural_match (dataArrayArray demo_db ! 0) (currentStack demo_proxy)
   \<and> \<not> sealed (dataArrayArray demo_db ! 0)
   \<and> chain_matches (dataArrayArray demo_db ! 1) (currentStack demo_proxy)
   \<and> chain_matches (dataArrayArray demo_db ! 2) (currentStack demo_proxy)
   \<and> fst (findResult (dataArrayArray demo_db, demo_proxy)) = Some (last (dataArrayArray demo_db ! 1))
   \<and> fst (valueOf (dataArrayArray demo_db, demo_proxy)) = JStr ''wildcard''
   \<and> result (last (dataArrayArray demo_db ! 1)) \<noteq> None"
proof -
  have ok: "registered_ok (dataArrayArray demo_db)"
    by (simp add: demo_store registered_ok_def)
  have first: "find (\<lambda>c. chain_matches c (currentStack demo_proxy)) (dataArrayArray demo_db)
      = Some (dataArrayArray demo_db ! 1)"
    by (simp add: demo_store demo_stack chain_matches_def sealed_def structural_match_list_all2
        params_empty_def isEqual_def)
  have rest: "structural_match (dataArrayArray demo_db ! 0) (currentStack demo_proxy)
     \<and> \<not> sealed (dataArrayArray demo_db ! 0)
     \<and> chain_matches (dataArrayArray demo_db ! 1) (currentStack demo_proxy)
     \<and> chain_matches (dataArrayArray demo_db ! 2) (currentStack demo_proxy)"
    by (simp add: demo_store demo_stack chain_matches_def sealed_def structural_match_list_all2
        params_empty_def isEqual_def)
  have res: "result_of (last (dataArrayArray demo_db ! 1)) = JStr ''wildcard''"
    by (simp add: demo_store result_of_def)
  have mem: "dataArrayArray demo_db ! 1 \<in> set (dataArrayArray demo_db)"
    by (simp add: demo_store)
  show ?thesis
    using findResult_first_match [of "dataArrayArray demo_db" demo_proxy] ok first rest res mem
    by (auto simp: chain_matches_def)
qed

text \<open>
  C4 as stated: every sealed chain registered with result \<open>R\<close> is resolved to \<open>R\<close> by an
  invocation with exactly its names and parameters, through \<open>valueOf\<close> and through \<open>then\<close>.
  It fails where an earlier chain of the store matches the same invocation: with the
  wildcard chain registered before the exact one, the invocation built from the exact
  chain resolves to the wildcard chain's result. It fails for \<open>then\<close> also where \<open>R\<close> is a
  Promise: the \<open>await\<close> yields the value the Promise fulfils with, not the Promise \<open>R\<close>.
\<close>

theorem registered_chain_resolves_counterexample:
  "sealed (dataArrayArray demo_db ! 2)
   \<and> result (last (dataArrayArray demo_db ! 2)) = Some (JStr ''exact'')
   \<and> map action (currentStack demo_proxy) = map action (dataArrayArray demo_db ! 2)
   \<and> map parameters (currentStack demo_proxy) = map parameters (dataArrayArray demo_db ! 2)
   \<and> fst (valueOf (dataArrayArray demo_db, demo_proxy)) = JStr ''wildcard''
   \<and> fst (then_awaited (dataArrayArray demo_db, demo_proxy)) = Fulfils (JStr ''wildcard'')
   \<and> JStr ''wildcard'' \<noteq> JStr ''exact''
   \<and> sealed (dataArrayArray fulfilled_db ! 0)
   \<and> result (last (dataArrayArray fulfilled_db ! 0)) = Some (JFulfilled (JNum 1))
   \<and> map action (currentStack (MockDB_mRFunc (Some ''t'') fulfilled_db))
       = map action (dataArrayArray fulfilled_db ! 0)
   \<and> map parameters (currentStack (MockDB_mRFunc (Some ''t'') fulfilled_db))
       = map parameters (dataArrayArray fulfilled_db ! 0)
   \<and> fst (then_awaited (dataArrayArray fulfilled_db, MockDB_mRFunc (Some ''t'') fulfilled_db))
       = Fulfils (JNum 1)
   \<and> Fulfils (JNum 1) \<noteq> Fulfils (JFulfilled (JNum 1))"
  by (simp add: demo_store demo_stack fulfilled_db_def api_defs match_defs
      del: findResult_loop.simps(2))

text \<open>
  C4, amended. For every sealed chain \<open>C\<close> (so of length at least 1) registered with
  result \<open>R\<close>, an invocation whose operations have exactly the names and parameters of
  \<open>C\<close> resolves to \<open>R\<close> through \<open>valueOf\<close>, and through \<open>then\<close> as well when \<open>R\<close> is not a
  thenable (\<open>then\<close> settles as \<open>Promise.resolve(R)\<close> does), provided no chain registered
  before \<open>C\<close> matches that invocation.
\<close>

theorem registered_chain_resolves:
  assumes "store = earlier @ C # later"
    and "sealed C" and "result (last C) = Some R"
    and "map action (currentStack this) = map action C"
    and "map parameters (currentStack this) = map parameters C"
    and "\<forall>c \<in> set earlier. \<not> chain_matches c (currentStack this)"
  shows "fst (valueOf (store, this)) = R
     \<and> fst (then_awaited (store, this)) = Promise_resolve R
     \<and> (\<not> thenable R \<longrightarrow> fst (then_awaited (store, this)) = Fulfils R)"
proof -
  have "chain_matches C (currentStack this)"
    using assms(2,4,5) by (simp add: chain_matches_def same_operations_match)
  with assms(6) have "find (\<lambda>c. chain_matches c (currentStack this)) store = Some C"
    unfolding assms(1) by (intro find_first)
  with assms(3) have "fst (valueOf (store, this)) = R"
    by (simp add: valueOf_find result_of_def)
  then show ?thesis
    by (simp add: then_awaited_adopts Promise_resolve_plain)
qed

theorem registered_chain_resolves_witness:
  "sealed (dataArrayArray demo_db ! 1)
   \<and> result (last (dataArrayArray demo_db ! 1)) = Some (JStr ''wildcard'')
   \<and> map action (currentStack bare_proxy) = map action (dataArrayArray demo_db ! 1)
   \<and> map parameters (currentStack bare_proxy) = map parameters (dataArrayArray demo_db ! 1)
   \<and> \<not> chain_matches (dataArrayArray demo_db ! 0) (currentStack bare_proxy)
   \<and> \<not> thenable (JStr ''wildcard'')
   \<and> fst (valueOf (dataArrayArray demo_db, bare_proxy)) = JStr ''wildcard''
   \<and> fst (then_awaited (dataArrayArray demo_db, bare_proxy)) = Fulfils (JStr ''wildcard'')"
proof -
  have split: "dataArrayArray demo_db
      = [dataArrayArray demo_db ! 0] @ (dataArrayArray demo_db ! 1) # [dataArrayArray demo_db ! 2]"
    by (simp add: demo_store)
  have facts: "sealed (dataArrayArray demo_db ! 1)
     \<and> result (last (dataArrayArray demo_db ! 1)) = Some (JStr ''wildcard'')
     \<and> map action (currentStack bare_proxy) = map action (dataArrayArray demo_db ! 1)
     \<and> map parameters (currentStack bare_proxy) = map parameters (dataArrayArray demo_db ! 1)
     \<and> \<not> chain_matches (dataArrayArray demo_db ! 0) (currentStack bare_proxy)"
    by (simp add: demo_store bare_stack chain_matches_def sealed_def)
  then have earlier: "\<forall>c \<in> set [dataArrayArray demo_db ! 0]. \<not> chain_matches c (currentStack bare_proxy)"
    by simp
  show ?thesis
    using facts registered_chain_resolves [OF split _ _ _ _ earlier, of "JStr ''wildcard''"]
    by simp
qed

text \<open>
  C5. Where the expectation operation at a position was registered with an empty
  parameter sequence and the invocation operation there has the same name, the comparison
  at that position succeeds whatever parameters the invocation carries: the outcome of the
  comparison of the two chains is decided by the other positions alone.
\<close>

theorem wildcard_position:
  assumes "i < length c" and "parameters (c ! i) = PArr []" and "action (c ! i) = action (s ! i)"
  shows "check_links c s 0 =
     (\<forall>j \<in> {0..<length c} - {i}. action (c ! j) = action (s ! j)
        \<and> (params_empty (parameters (c ! j)) \<or> isEqual (parameters (c ! j)) (parameters (s ! j))))"
  using assms by (auto simp: check_links_iff params_empty_def)

theorem wildcard_position_witness:
  "1 < length (dataArrayArray demo_db ! 1)
   \<and> parameters (dataArrayArray demo_db ! 1 ! 1) = PArr []
   \<and> parameters (currentStack demo_proxy ! 1) = PArr readme_select
   \<and> action (dataArrayArray demo_db ! 1 ! 1) = action (currentStack demo_proxy ! 1)
   \<and> check_links (dataArrayArray demo_db ! 1) (currentStack demo_proxy) 0"
proof -
  have h1: "1 < length (dataArrayArray demo_db ! 1)"
    and h2: "parameters (dataArrayArray demo_db ! 1 ! 1) = PArr []"
    and h3: "action (dataArrayArray demo_db ! 1 ! 1) = action (currentStack demo_proxy ! 1)"
    and h4: "parameters (currentStack demo_proxy ! 1) = PArr readme_select"
    by (simp_all add: demo_store demo_stack)
  have others: "{0..<length (dataArrayArray demo_db ! 1)} - {1} = {0, 2::nat}"
    by (auto simp: demo_store)
  have rest: "\<forall>j \<in> {0, 2::nat}.
      action (dataArrayArray demo_db ! 1 ! j) = action (currentStack demo_proxy ! j)
      \<and> (params_empty (parameters (dataArrayArray demo_db ! 1 ! j))
         \<or> isEqual (parameters (dataArrayArray demo_db ! 1 ! j))
              (parameters (currentStack demo_proxy ! j)))"
    by (simp add: demo_store demo_stack isEqual_def)
  have "check_links (dataArrayArray demo_db ! 1) (currentStack demo_proxy) 0"
    unfolding wildcard_position [OF h1 h2 h3] others by (rule rest)
  with h1 h2 h3 h4 show ?thesis by simp
qed

text \<open>
  C6. When the invocation chain matches no sealed chain of the store (the store may be
  empty), resolving raises no error and yields the empty array, through \<open>valueOf\<close> and
  through \<open>then\<close> alike.
\<close>

theorem no_match_default:
  assumes "\<forall>c \<in> set store. sealed c \<longrightarrow> \<not> structural_match c (currentStack this)"
  shows "valueOf (store, this) = (JArr [], (store, this))
       \<and> then_awaited (store, this) = (Fulfils (JArr []), (store, this))"
proof -
  have "find (\<lambda>c. chain_matches c (currentStack this)) store = None"
    using assms by (auto simp: find_None_iff chain_matches_def)
  then have "valueOf (store, this) = (JArr [], (store, this))"
    by (simp add: valueOf_find)
  then show ?thesis
    by (simp add: then_awaited_adopts)
qed

theorem no_match_default_witness:
  "length (dataArrayArray demo_db) = 3
   \<and> \<not> structural_match (dataArrayArray demo_db ! 0) (currentStack other_proxy)
   \<and> \<not> structural_match (dataArrayArray demo_db ! 1) (currentStack other_proxy)
   \<and> \<not> structural_match (dataArrayArray demo_db ! 2) (currentStack other_proxy)
   \<and> valueOf (dataArrayArray demo_db, other_proxy) = (JArr [], (dataArrayArray demo_db, other_proxy))
   \<and> then_awaited (dataArrayArray demo_db, other_proxy)
       = (Fulfils (JArr []), (dataArrayArray demo_db, other_proxy))"
proof -
  have each: "length (dataArrayArray demo_db) = 3
     \<and> \<not> structural_match (dataArrayArray demo_db ! 0) (currentStack other_proxy)
     \<and> \<not> structural_match (dataArrayArray demo_db ! 1) (currentStack other_proxy)
     \<and> \<not> structural_match (dataArrayArray demo_db ! 2) (currentStack other_proxy)"
    by (simp add: demo_store other_stack structural_match_list_all2)
  have hyp: "\<forall>c \<in> set (dataArrayArray demo_db).
      sealed c \<longrightarrow> \<not> structural_match c (currentStack other_proxy)"
    by (simp add: demo_store other_stack structural_match_list_all2)
  show ?thesis
    using each no_match_default [OF hyp] by simp
qed

text \<open>
  C7 as stated: for every invocation chain and store state, the value of \<open>valueOf\<close> equals
  the value \<open>then\<close> resolves to. It fails where the matched result is a Promise:
  \<open>valueOf\<close> returns the Promise itself, while \<open>then\<close> passes it through
  \<open>Promise.resolve\<close>, so an \<open>await\<close> yields the value the Promise fulfils with, or throws
  the reason it rejects with.
\<close>

theorem accessors_agree_counterexample:
  "expect_chain (Some ''t'') [] (JFulfilled (JNum 1)) (MockKnex_new None) = Inr fulfilled_db
   \<and> fst (valueOf (dataArrayArray fulfilled_db, MockDB_mRFunc (Some ''t'') fulfilled_db))
       = JFulfilled (JNum 1)
   \<and> fst (then_awaited (dataArrayArray fulfilled_db, MockDB_mRFunc (Some ''t'') fulfilled_db))
       = Fulfils (JNum 1)
   \<and> Fulfils (JNum 1) \<noteq> Fulfils (JFulfilled (JNum 1))
   \<and> expect_chain (Some ''t'') [] (JRejected (JStr ''boom'')) (MockKnex_new None) = Inr rejected_db
   \<and> fst (valueOf (dataArrayArray rejected_db, MockDB_mRFunc (Some ''t'') rejected_db))
       = JRejected (JStr ''boom'')
   \<and> fst (then_awaited (dataArrayArray rejected_db, MockDB_mRFunc (Some ''t'') rejected_db))
       = Rejects (JStr ''boom'')"
  by (simp add: fulfilled_db_def rejected_db_def expect_chain_def api_defs match_defs
      del: findResult_loop.simps(2))

text \<open>
  C7, amended. For a fixed invocation chain and store, \<open>then\<close> settles as
  \<open>Promise.resolve\<close> settles the value that \<open>valueOf\<close> returns; when that value is not a
  thenable, \<open>then\<close> resolves to exactly the value of \<open>valueOf\<close>. After any sequence of
  repeated or alternating accesses, either accessor yields what it yielded at first.
\<close>

theorem accessors_agree:
  "fst (then_awaited st) = Promise_resolve (fst (valueOf st))
   \<and> (\<not> thenable (fst (valueOf st)) \<longrightarrow> fst (then_awaited st) = Fulfils (fst (valueOf st)))
   \<and> access a (snd (access_all as st)) = access a st"
  by (simp add: then_awaited_adopts Promise_resolve_plain snd_access_all)

theorem accessors_agree_witness:
  "fst (valueOf (dataArrayArray demo_db, demo_proxy)) = JStr ''wildcard''
   \<and> \<not> thenable (JStr ''wildcard'')
   \<and> fst (then_awaited (dataArrayArray demo_db, demo_proxy)) = Fulfils (JStr ''wildcard'')
   \<and> access Then (snd (access_all [ValueOf, Then, ValueOf] (dataArrayArray demo_db, demo_proxy)))
       = (Settled (Fulfils (JStr ''wildcard'')), (dataArrayArray demo_db, demo_proxy))
   \<and> access ValueOf (snd (access_all [Then, Then] (dataArrayArray demo_db, demo_proxy)))
       = (Returned (JStr ''wildcard''), (dataArrayArray demo_db, demo_proxy))"
proof -
  have v: "valueOf (dataArrayArray demo_db, demo_proxy)
      = (JStr ''wildcard'', (dataArrayArray demo_db, demo_proxy))"
    by (simp add: demo_store demo_stack match_defs del: findResult_loop.simps(2))
  have t: "then_awaited (dataArrayArray demo_db, demo_proxy)
      = (Fulfils (JStr ''wildcard''), (dataArrayArray demo_db, demo_proxy))"
    by (simp add: demo_store demo_stack match_defs del: findResult_loop.simps(2))
  show ?thesis
    using accessors_agree [of "(dataArrayArray demo_db, demo_proxy)" Then "[ValueOf, Then, ValueOf]"]
      accessors_agree [of "(dataArrayArray demo_db, demo_proxy)" ValueOf "[Then, Then]"]
    by (simp add: v t)
qed

text \<open>
  C8. Resolving has no effect on the data of the mock: \<open>findResult\<close>, \<open>valueOf\<close>, \<open>then\<close>
  and any sequence of accesses leave the store \<open>resolveQue\<close> and the object with its
  \<open>currentStack\<close> as they were.
\<close>

theorem resolution_frame:
  "snd (findResult (resolveQue, this)) = (resolveQue, this)
   \<and> snd (valueOf (resolveQue, this)) = (resolveQue, this)
   \<and> snd (then_awaited (resolveQue, this)) = (resolveQue, this)
   \<and> snd (access_all as (resolveQue, this)) = (resolveQue, this)"
  by (simp add: findResult_def snd_valueOf then_awaited_adopts snd_access_all)

section \<open>Claims about the recorder\<close>

text \<open>
  C1 as stated: a second \<open>RESOLVE\<close> on a sealed builder, and a fluent call after
  \<open>RESOLVE\<close>, raise an error. Neither does: the source has no check of the sealed state,
  the second \<open>RESOLVE\<close> returns normally with the result replaced, and the fluent call
  returns the builder with the chain extended.
\<close>

theorem RESOLVE_again_counterexample:
  "EXPECT_mQFunc (Some ''t'') (MockKnex_new None)
     = (\<lparr>dataArray = 0\<rparr>, \<lparr>config = None, dataArrayArray = [[CraftData TABLE (PStr ''t'') True]]\<rparr>)
   \<and> RESOLVE (JNum 1) \<lparr>dataArray = 0\<rparr>
       \<lparr>config = None, dataArrayArray = [[CraftData TABLE (PStr ''t'') True]]\<rparr>
     = Inr \<lparr>config = None, dataArrayArray =
         [[\<lparr>action = TABLE, parameters = PStr ''t'', isMore = False, result = Some (JNum 1)\<rparr>]]\<rparr>
   \<and> RESOLVE (JNum 2) \<lparr>dataArray = 0\<rparr>
       \<lparr>config = None, dataArrayArray =
         [[\<lparr>action = TABLE, parameters = PStr ''t'', isMore = False, result = Some (JNum 1)\<rparr>]]\<rparr>
     = Inr \<lparr>config = None, dataArrayArray =
         [[\<lparr>action = TABLE, parameters = PStr ''t'', isMore = False, result = Some (JNum 2)\<rparr>]]\<rparr>
   \<and> MockQuery_select [] \<lparr>dataArray = 0\<rparr>
       \<lparr>config = None, dataArrayArray =
         [[\<lparr>action = TABLE, parameters = PStr ''t'', isMore = False, result = Some (JNum 1)\<rparr>]]\<rparr>
     = (\<lparr>dataArray = 0\<rparr>, \<lparr>config = None, dataArrayArray =
         [[\<lparr>action = TABLE, parameters = PStr ''t'', isMore = False, result = Some (JNum 1)\<rparr>,
           \<lparr>action = SELECT, parameters = PArr [], isMore = True, result = None\<rparr>]]\<rparr>)"
  by (simp add: api_defs)

text \<open>
  C1, amended. After a \<open>RESOLVE\<close> that succeeded, a second \<open>RESOLVE\<close> on the same builder
  returns without error and leaves the chain as a single \<open>RESOLVE\<close> with the new value
  would: \<open>isMore\<close> false on the last operation, its result replaced. A fluent call on the
  builder returns it without error too, with the new operation (\<open>isMore\<close> true, no result)
  appended behind the sealed one.
\<close>

theorem RESOLVE_again:
  assumes "RESOLVE d1 this db = Inr db1"
  shows "RESOLVE d2 this db1 =
       Inr (db\<lparr>dataArrayArray := (dataArrayArray db)[dataArray this :=
              resolved d2 (dataArrayArray db ! dataArray this)]\<rparr>)
     \<and> MockQuery_push X input this db1 =
       (this, db\<lparr>dataArrayArray := (dataArrayArray db)[dataArray this :=
              resolved d1 (dataArrayArray db ! dataArray this) @ [CraftData X (PArr input) True]]\<rparr>)"
proof -
  let ?C = "dataArrayArray db ! dataArray this"
  have ne: "?C \<noteq> []"
    using assms by (auto simp: RESOLVE_def Let_def split: if_splits)
  have db1: "db1 = db\<lparr>dataArrayArray := (dataArrayArray db)[dataArray this := resolved d1 ?C]\<rparr>"
    using assms by (simp add: RESOLVE_nonempty [OF ne])
  show ?thesis
  proof (cases "dataArray this < length (dataArrayArray db)")
    case True
    then have at: "dataArrayArray db1 ! dataArray this = resolved d1 ?C"
      by (simp add: db1)
    then have ne1: "dataArrayArray db1 ! dataArray this \<noteq> []"
      by simp
    show ?thesis
      by (simp add: RESOLVE_nonempty [OF ne1] MockQuery_push_def array_push_def at)
        (simp add: db1)
  next
    case False
    then have beyond: "(dataArrayArray db)[dataArray this := a] = dataArrayArray db" for a
      by (simp add: list_update_beyond)
    then have same: "db1 = db"
      by (simp add: db1)
    show ?thesis
      by (simp add: same RESOLVE_nonempty [OF ne] MockQuery_push_def array_push_def beyond)
  qed
qed

theorem RESOLVE_again_witness:
  "RESOLVE (JNum 1) \<lparr>dataArray = 0\<rparr>
       \<lparr>config = None, dataArrayArray = [[CraftData TABLE (PStr ''t'') True]]\<rparr>
     = Inr \<lparr>config = None, dataArrayArray =
         [[\<lparr>action = TABLE, parameters = PStr ''t'', isMore = False, result = Some (JNum 1)\<rparr>]]\<rparr>
   \<and> RESOLVE (JNum 2) \<lparr>dataArray = 0\<rparr>
       \<lparr>config = None, dataArrayArray =
         [[\<lparr>action = TABLE, parameters = PStr ''t'', isMore = False, result = Some (JNum 1)\<rparr>]]\<rparr>
     = Inr \<lparr>config = None, dataArrayArray =
         [[\<lparr>action = TABLE, parameters = PStr ''t'', isMore = False, result = Some (JNum 2)\<rparr>]]\<rparr>
   \<and> MockQuery_push WHERE [] \<lparr>dataArray = 0\<rparr>
       \<lparr>config = None, dataArrayArray =
         [[\<lparr>action = TABLE, parameters = PStr ''t'', isMore = False, result = Some (JNum 1)\<rparr>]]\<rparr>
     = (\<lparr>dataArray = 0\<rparr>, \<lparr>config = None, dataArrayArray =
         [[\<lparr>action = TABLE, parameters = PStr ''t'', isMore = False, result = Some (JNum 1)\<rparr>,
           \<lparr>action = WHERE, parameters = PArr [], isMore = True, result = None\<rparr>]]\<rparr>)"
proof -
  have first: "RESOLVE (JNum 1) \<lparr>dataArray = 0\<rparr>
       \<lparr>config = None, dataArrayArray = [[CraftData TABLE (PStr ''t'') True]]\<rparr>
     = Inr \<lparr>config = None, dataArrayArray =
         [[\<lparr>action = TABLE, parameters = PStr ''t'', isMore = False, result = Some (JNum 1)\<rparr>]]\<rparr>"
    by (simp add: api_defs)
  show ?thesis
    using first RESOLVE_again [OF first, of "JNum 2" WHERE "[]"]
    by (simp add: CraftData_def)
qed

text \<open>
  C9. Sealing needs a non-empty chain. When the factory is called with no table name and
  \<open>RESOLVE\<close> is called before any fluent call, \<open>RESOLVE\<close> addresses the element at index
  \<open>length - 1\<close> of an empty array with no guard, and the assignment throws. When at least
  one operation has been appended, \<open>RESOLVE\<close> returns without error, having set \<open>isMore\<close>
  to false and attached the result on the last element and on nothing else.
\<close>

theorem RESOLVE_last_element:
  "RESOLVE data (fst (EXPECT_mQFunc None db0)) (snd (EXPECT_mQFunc None db0)) = Inl TypeError
   \<and> (dataArray this < length (dataArrayArray db) \<and> dataArrayArray db ! dataArray this \<noteq> [] \<longrightarrow>
        RESOLVE data this db =
          Inr (db\<lparr>dataArrayArray := (dataArrayArray db)[dataArray this :=
            resolved data (dataArrayArray db ! dataArray this)]\<rparr>))"
proof -
  have "RESOLVE data (fst (EXPECT_mQFunc None db0)) (snd (EXPECT_mQFunc None db0)) = Inl TypeError"
    by (rule RESOLVE_empty) (simp add: EXPECT_mQFunc_eq)
  then show ?thesis
    by (simp add: RESOLVE_nonempty)
qed

theorem RESOLVE_last_element_witness:
  "RESOLVE (JNum 1) (fst (EXPECT_mQFunc None (MockKnex_new None)))
      (snd (EXPECT_mQFunc None (MockKnex_new None))) = Inl TypeError
   \<and> RESOLVE (JNum 1) (fst (EXPECT_mQFunc (Some ''t'') (MockKnex_new None)))
      (snd (EXPECT_mQFunc (Some ''t'') (MockKnex_new None)))
     = Inr \<lparr>config = None, dataArrayArray =
         [[\<lparr>action = TABLE, parameters = PStr ''t'', isMore = False, result = Some (JNum 1)\<rparr>]]\<rparr>"
  using RESOLVE_last_element [of "JNum 1" "MockKnex_new None"
      "fst (EXPECT_mQFunc (Some ''t'') (MockKnex_new None))"
      "snd (EXPECT_mQFunc (Some ''t'') (MockKnex_new None))"]
  by (simp add: EXPECT_mQFunc_eq MockKnex_new_def CraftData_def)

section \<open>Claims about the seeds\<close>

text \<open>
  C2 as stated: the raw factory seeds its chain with a name other than the table seed's,
  so a raw-seeded chain and a table-seeded chain never match, for every raw text and every
  table name. Both seeds are named \<open>TABLE\<close>; the raw text only gets the prefix \<open>raw:\<close>.
  The table name \<open>raw:x\<close> and the raw text \<open>x\<close> give the same chain, and each resolves
  the other's invocation.
\<close>

theorem raw_seed_collides_counterexample:
  "expect_chain (Some ''raw:x'') [] (JNum 1) (MockKnex_new None) = Inr raw_x_db
   \<and> fst (valueOf (dataArrayArray raw_x_db, MockDB_raw ''x'' raw_x_db)) = JNum 1
   \<and> expect_raw_chain ''x'' [] (JNum 1) (MockKnex_new None) = Inr raw_x_db
   \<and> fst (valueOf (dataArrayArray raw_x_db, MockDB_mRFunc (Some ''raw:x'') raw_x_db)) = JNum 1
   \<and> action (hd (currentStack (MockDB_raw ''x'' raw_x_db))) = TABLE
   \<and> action (hd (currentStack (MockDB_mRFunc (Some ''raw:x'') raw_x_db))) = TABLE"
  by (simp add: raw_x_db_def expect_chain_def expect_raw_chain_def api_defs match_defs
      del: findResult_loop.simps(2))

text \<open>
  C2, amended. The raw factory starts a chain whose seed operation has the name of the
  table seed, \<open>TABLE\<close>, and as parameters the string \<open>raw:\<close> followed by the raw text.
  For every raw text \<open>r\<close> and every non-empty table name \<open>t\<close> other than \<open>raw:\<close>
  followed by \<open>r\<close>, a table-seeded invocation never matches a raw-seeded expectation
  chain and a raw-seeded invocation never matches a table-seeded expectation chain,
  whatever fluent calls follow the seeds.
\<close>

theorem raw_seed_vs_table_seed:
  assumes "t \<noteq> []" and "t \<noteq> ''raw:'' @ r"
    and "expect_raw_chain r ops R (MockKnex_new cfg) = Inr db"
    and "expect_chain (Some t) ops' R' (MockKnex_new cfg') = Inr db'"
  shows "dataArrayArray (snd (EXPECT_raw r db0))
        = dataArrayArray db0 @ [[CraftData TABLE (PStr (''raw:'' @ r)) True]]
     \<and> dataArrayArray (snd (EXPECT_mQFunc (Some t) db0))
        = dataArrayArray db0 @ [[CraftData TABLE (PStr t) True]]
     \<and> currentStack (MockDB_raw r db0) = [CraftData TABLE (PStr (''raw:'' @ r)) True]
     \<and> currentStack (MockDB_mRFunc (Some t) db0) = [CraftData TABLE (PStr t) True]
     \<and> fst (findResult (dataArrayArray db, MockResolve_calls calls (MockDB_mRFunc (Some t) db))) = None
     \<and> fst (findResult (dataArrayArray db', MockResolve_calls calls' (MockDB_raw r db'))) = None"
proof -
  have seeds: "dataArrayArray (snd (EXPECT_raw r db0))
        = dataArrayArray db0 @ [[CraftData TABLE (PStr (''raw:'' @ r)) True]]
     \<and> dataArrayArray (snd (EXPECT_mQFunc (Some t) db0))
        = dataArrayArray db0 @ [[CraftData TABLE (PStr t) True]]
     \<and> currentStack (MockDB_raw r db0) = [CraftData TABLE (PStr (''raw:'' @ r)) True]
     \<and> currentStack (MockDB_mRFunc (Some t) db0) = [CraftData TABLE (PStr t) True]"
    using assms(1) by (simp add: EXPECT_raw_eq EXPECT_mQFunc_eq MockDB_raw_def MockDB_mRFunc_def
        MockResolve_new_def)
  have db: "dataArrayArray db
      = [resolved R (CraftData TABLE (PStr (''raw:'' @ r)) True # map pushed ops)]"
    using assms(3) by (auto simp: expect_raw_chain_fresh)
  have db': "dataArrayArray db'
      = [resolved R' (CraftData TABLE (PStr t) True # map pushed ops')]"
    using assms(1,4) by (auto simp: expect_chain_fresh)
  have one: "fst (findResult (dataArrayArray db, MockResolve_calls calls (MockDB_mRFunc (Some t) db))) = None"
    unfolding db using assms(1,2)
    by (intro fresh_mismatch)
      (simp_all add: MockResolve_calls_eq MockDB_mRFunc_def MockResolve_new_def CraftData_def
        params_empty_def)
  have two: "fst (findResult (dataArrayArray db', MockResolve_calls calls' (MockDB_raw r db'))) = None"
    unfolding db' using assms(1,2)
    by (intro fresh_mismatch)
      (simp_all add: MockResolve_calls_eq MockDB_raw_def MockResolve_new_def CraftData_def
        params_empty_def)
  from seeds one two show ?thesis by simp
qed

theorem raw_seed_vs_table_seed_witness:
  "expect_raw_chain ''select * from users'' [] (JNum 7) (MockKnex_new None)
     = Inr \<lparr>config = None, dataArrayArray =
         [[\<lparr>action = TABLE, parameters = PStr ''raw:select * from users'', isMore = False,
            result = Some (JNum 7)\<rparr>]]\<rparr>
   \<and> expect_chain (Some ''users'') [] (JNum 8) (MockKnex_new None)
     = Inr \<lparr>config = None, dataArrayArray =
         [[\<lparr>action = TABLE, parameters = PStr ''users'', isMore = False, result = Some (JNum 8)\<rparr>]]\<rparr>
   \<and> fst (findResult ([[\<lparr>action = TABLE, parameters = PStr ''raw:select * from users'',
          isMore = False, result = Some (JNum 7)\<rparr>]],
        MockResolve_calls [] (MockDB_mRFunc (Some ''users'') (MockKnex_new None)))) = None
   \<and> fst (findResult ([[\<lparr>action = TABLE, parameters = PStr ''users'', isMore = False,
          result = Some (JNum 8)\<rparr>]],
        MockResolve_calls [] (MockDB_raw ''select * from users'' (MockKnex_new None)))) = None"
proof -
  have a: "expect_raw_chain ''select * from users'' [] (JNum 7) (MockKnex_new None)
     = Inr \<lparr>config = None, dataArrayArray =
         [[\<lparr>action = TABLE, parameters = PStr ''raw:select * from users'', isMore = False,
            result = Some (JNum 7)\<rparr>]]\<rparr>"
    by (simp add: expect_raw_chain_def api_defs)
  have b: "expect_chain (Some ''users'') [] (JNum 8) (MockKnex_new None)
     = Inr \<lparr>config = None, dataArrayArray =
         [[\<lparr>action = TABLE, parameters = PStr ''users'', isMore = False, result = Some (JNum 8)\<rparr>]]\<rparr>"
    by (simp add: expect_chain_def api_defs)
  have c: "''users'' \<noteq> []" and d: "''users'' \<noteq> ''raw:'' @ ''select * from users''"
    by simp_all
  show ?thesis
    using a b raw_seed_vs_table_seed [OF c d a b, of "MockKnex_new None" "[]" "[]"]
    by (simp add: MockDB_mRFunc_def MockDB_raw_def MockKnex_new_def)
qed

text \<open>
  C10 as stated, for every string \<open>t\<close>. The factory takes the empty string for no table
  name and seeds nothing: an expectation started with the empty string and sealed at once
  throws, and the expectation started with the empty string and continued by \<open>table()\<close>
  does match the invocation whose first operation comes from \<open>table\<close> called with the
  empty string on an unseeded proxy.
\<close>

theorem table_seed_vs_table_call_counterexample:
  "expect_chain (Some []) [] (JNum 1) (MockKnex_new None) = Inl TypeError
   \<and> expect_chain (Some []) [(TABLE, [])] (JNum 1) (MockKnex_new None) = Inr any_table_db
   \<and> currentStack (MockResolve_table [JStr []] (MockDB_mRFunc None any_table_db))
       = [CraftData TABLE (PArr [JStr []]) True]
   \<and> fst (valueOf (dataArrayArray any_table_db,
         MockResolve_table [JStr []] (MockDB_mRFunc None any_table_db))) = JNum 1"
  by (simp add: any_table_db_def expect_chain_def api_defs match_defs
      del: findResult_loop.simps(2))

text \<open>
  C10, amended. The seed operation made by calling the factory with a non-empty table
  name \<open>t\<close> stores the bare string as its parameters, while the fluent \<open>table\<close> stores
  the array of its arguments. Hence for every non-empty \<open>t\<close>, an expectation chain
  started as \<open>F(t)\<close> matches the invocation started as \<open>G(t)\<close> with the same fluent calls,
  and never matches an invocation whose first operation comes from \<open>table(t)\<close> on an
  unseeded proxy; and an expectation started with \<open>table(t)\<close> on an unseeded builder never
  matches an invocation started as \<open>G(t)\<close>, while it matches the invocation started with
  \<open>table(t)\<close> on an unseeded proxy.
\<close>

theorem table_seed_vs_table_call:
  assumes "t \<noteq> []"
    and "expect_chain (Some t) ops R (MockKnex_new cfg) = Inr db"
    and "expect_chain None ((TABLE, [JStr t]) # ops') R' (MockKnex_new cfg') = Inr db'"
  shows "dataArrayArray (snd (EXPECT_mQFunc (Some t) db0))
        = dataArrayArray db0 @ [[CraftData TABLE (PStr t) True]]
     \<and> currentStack (MockDB_mRFunc (Some t) db0) = [CraftData TABLE (PStr t) True]
     \<and> currentStack (MockResolve_table [JStr t] (MockDB_mRFunc None db0))
        = [CraftData TABLE (PArr [JStr t]) True]
     \<and> fst (valueOf (dataArrayArray db, MockResolve_calls ops (MockDB_mRFunc (Some t) db))) = R
     \<and> fst (findResult (dataArrayArray db,
          MockResolve_calls calls (MockResolve_table [JStr t] (MockDB_mRFunc None db)))) = None
     \<and> fst (findResult (dataArrayArray db', MockResolve_calls calls' (MockDB_mRFunc (Some t) db'))) = None
     \<and> fst (valueOf (dataArrayArray db',
          MockResolve_calls ops' (MockResolve_table [JStr t] (MockDB_mRFunc None db')))) = R'"
proof -
  have seeds: "dataArrayArray (snd (EXPECT_mQFunc (Some t) db0))
        = dataArrayArray db0 @ [[CraftData TABLE (PStr t) True]]
     \<and> currentStack (MockDB_mRFunc (Some t) db0) = [CraftData TABLE (PStr t) True]
     \<and> currentStack (MockResolve_table [JStr t] (MockDB_mRFunc None db0))
        = [CraftData TABLE (PArr [JStr t]) True]"
    using assms(1) by (simp add: EXPECT_mQFunc_eq MockDB_mRFunc_def MockResolve_new_def
        MockResolve_table_def MockResolve_push_def)
  have db: "dataArrayArray db = [resolved R (CraftData TABLE (PStr t) True # map pushed ops)]"
    using assms(1,2) by (auto simp: expect_chain_fresh)
  have db': "dataArrayArray db'
      = [resolved R' (CraftData TABLE (PArr [JStr t]) True # map pushed ops')]"
    using assms(3) by (auto simp: expect_chain_fresh)
  have one: "fst (valueOf (dataArrayArray db, MockResolve_calls ops (MockDB_mRFunc (Some t) db))) = R"
    unfolding db using assms(1)
    by (intro fresh_match) (simp_all add: MockResolve_calls_eq MockDB_mRFunc_def MockResolve_new_def)
  have two: "fst (findResult (dataArrayArray db,
      MockResolve_calls calls (MockResolve_table [JStr t] (MockDB_mRFunc None db)))) = None"
    unfolding db using assms(1)
    by (intro fresh_mismatch)
      (simp_all add: MockResolve_calls_eq MockDB_mRFunc_def MockResolve_new_def CraftData_def
        MockResolve_table_def MockResolve_push_def params_empty_def)
  have three: "fst (findResult (dataArrayArray db',
      MockResolve_calls calls' (MockDB_mRFunc (Some t) db'))) = None"
    unfolding db' using assms(1)
    by (intro fresh_mismatch)
      (simp_all add: MockResolve_calls_eq MockDB_mRFunc_def MockResolve_new_def CraftData_def
        params_empty_def)
  have four: "fst (valueOf (dataArrayArray db',
      MockResolve_calls ops' (MockResolve_table [JStr t] (MockDB_mRFunc None db')))) = R'"
    unfolding db'
    by (intro fresh_match)
      (simp_all add: MockResolve_calls_eq MockDB_mRFunc_def MockResolve_new_def
        MockResolve_table_def MockResolve_push_def)
  from seeds one two three four show ?thesis by simp
qed

theorem table_seed_vs_table_call_witness:
  "expect_chain (Some ''myTable'') [(SELECT, readme_select)] (JNum 1) (MockKnex_new None)
     = Inr \<lparr>config = None, dataArrayArray =
         [[\<lparr>action = TABLE, parameters = PStr ''myTable'', isMore = True, result = None\<rparr>,
           \<lparr>action = SELECT, parameters = PArr readme_select, isMore = False,
              result = Some (JNum 1)\<rparr>]]\<rparr>
   \<and> expect_chain None [(TABLE, [JStr ''myTable'']), (SELECT, readme_select)] (JNum 2)
        (MockKnex_new None)
     = Inr \<lparr>config = None, dataArrayArray =
         [[\<lparr>action = TABLE, parameters = PArr [JStr ''myTable''], isMore = True, result = None\<rparr>,
           \<lparr>action = SELECT, parameters = PArr readme_select, isMore = False,
              result = Some (JNum 2)\<rparr>]]\<rparr>
   \<and> fst (valueOf
        ([[\<lparr>action = TABLE, parameters = PStr ''myTable'', isMore = True, result = None\<rparr>,
           \<lparr>action = SELECT, parameters = PArr readme_select, isMore = False,
              result = Some (JNum 1)\<rparr>]],
         MockResolve_calls [(SELECT, readme_select)]
           (MockDB_mRFunc (Some ''myTable'') (MockKnex_new None)))) = JNum 1
   \<and> fst (findResult
        ([[\<lparr>action = TABLE, parameters = PStr ''myTable'', isMore = True, result = None\<rparr>,
           \<lparr>action = SELECT, parameters = PArr readme_select, isMore = False,
              result = Some (JNum 1)\<rparr>]],
         MockResolve_calls [(SELECT, readme_select)]
           (MockResolve_table [JStr ''myTable''] (MockDB_mRFunc None (MockKnex_new None))))) = None
   \<and> fst (findResult
        ([[\<lparr>action = TABLE, parameters = PArr [JStr ''myTable''], isMore = True, result = None\<rparr>,
           \<lparr>action = SELECT, parameters = PArr readme_select, isMore = False,
              result = Some (JNum 2)\<rparr>]],
         MockResolve_calls [(SELECT, readme_select)]
           (MockDB_mRFunc (Some ''myTable'') (MockKnex_new None)))) = None"
proof -
  have a: "expect_chain (Some ''myTable'') [(SELECT, readme_select)] (JNum 1) (MockKnex_new None)
     = Inr \<lparr>config = None, dataArrayArray =
         [[\<lparr>action = TABLE, parameters = PStr ''myTable'', isMore = True, result = None\<rparr>,
           \<lparr>action = SELECT, parameters = PArr readme_select, isMore = False,
              result = Some (JNum 1)\<rparr>]]\<rparr>"
    by (simp add: expect_chain_def api_defs)
  have b: "expect_chain None [(TABLE, [JStr ''myTable'']), (SELECT, readme_select)] (JNum 2)
        (MockKnex_new None)
     = Inr \<lparr>config = None, dataArrayArray =
         [[\<lparr>action = TABLE, parameters = PArr [JStr ''myTable''], isMore = True, result = None\<rparr>,
           \<lparr>action = SELECT, parameters = PArr readme_select, isMore = False,
              result = Some (JNum 2)\<rparr>]]\<rparr>"
    by (simp add: expect_chain_def api_defs)
  have c: "''myTable'' \<noteq> []"
    by simp
  show ?thesis
    using a b table_seed_vs_table_call [OF c a b, of "MockKnex_new None"
        "[(SELECT, readme_select)]" "[(SELECT, readme_select)]"]
    by (simp add: MockDB_mRFunc_def MockKnex_new_def)
qed

end
